theory Spec2Isabelle
  imports Complex_Main
begin

section \<open>Sell target forward dashboard: the computational core\<close>

text \<open>
  The embedding follows \<^verbatim>\<open>DerivativesCaseStudy.py\<close>. The script computes with Python
  floats; here every float is a \<^typ>\<open>real\<close>, so rounding, overflow to infinity and NaN are
  not part of the model: sums, products and quotients are exact. Month counts and month
  indices are Python ints and are \<^typ>\<open>int\<close> here. A Python exception is a value of
  \<open>py_error\<close> on the left of a sum type.
\<close>

subsection \<open>Errors and division\<close>

text \<open>
  \<open>ZeroDivisionError\<close> is the only exception the arithmetic of the script can raise.
  \<open>InvalidInput\<close> is the error kind of the specification's taxonomy; it is listed so that
  statements can speak about it, and no function of the script produces it.
\<close>

datatype py_error = ZeroDivisionError | InvalidInput

text \<open>Python's \<^verbatim>\<open>a / b\<close> on floats: raises when the divisor is zero.\<close>

definition py_truediv :: "real \<Rightarrow> real \<Rightarrow> py_error + real" where
  "py_truediv a b = (if b = 0 then Inl ZeroDivisionError else Inr (a / b))"

subsection \<open>The two loss formulas\<close>

text \<open>
  \<^verbatim>\<open>
  def calculate_stf_losses(notional_value, initial_rate, current_rate, strike_price, months_remaining):
      if current_rate <= strike_price:
          return 0
      loss_brl = notional_value * 2 * months_remaining * (strike_price - current_rate)
      loss_usd = loss_brl / current_rate
      return loss_usd
  \<close>
\<close>

definition calculate_stf_losses ::
  "real \<Rightarrow> real \<Rightarrow> real \<Rightarrow> real \<Rightarrow> int \<Rightarrow> py_error + real" where
  "calculate_stf_losses notional_value initial_rate current_rate strike_price months_remaining =
     (if current_rate \<le> strike_price then Inr 0
      else
        (let loss_brl = notional_value * 2 * real_of_int months_remaining
                          * (strike_price - current_rate)
         in py_truediv loss_brl current_rate))"

text \<open>
  \<^verbatim>\<open>
  def calculate_percentage_loss(current_rate, strike_price, months_remaining):
      if current_rate <= strike_price:
          return 0
      percentage_loss = 2 * months_remaining * (strike_price - current_rate) * 100 / current_rate
      return percentage_loss
  \<close>
\<close>

definition calculate_percentage_loss :: "real \<Rightarrow> real \<Rightarrow> int \<Rightarrow> py_error + real" where
  "calculate_percentage_loss current_rate strike_price months_remaining =
     (if current_rate \<le> strike_price then Inr 0
      else py_truediv (2 * real_of_int months_remaining * (strike_price - current_rate) * 100)
             current_rate)"

text \<open>
  The simulator section evaluates both formulas at the sliders' values:
  \<^verbatim>\<open>
  loss_usd = calculate_stf_losses(notional_value, initial_rate, current_rate, strike_price, months_remaining)
  percentage_loss = calculate_percentage_loss(current_rate, strike_price, months_remaining)
  \<close>
  The second call is reached only when the first one has returned.
\<close>

definition simulator_results ::
  "real \<Rightarrow> real \<Rightarrow> real \<Rightarrow> real \<Rightarrow> int \<Rightarrow> py_error + (real \<times> real)" where
  "simulator_results notional_value initial_rate current_rate strike_price months_remaining =
     (case calculate_stf_losses notional_value initial_rate current_rate strike_price
             months_remaining of
        Inl e \<Rightarrow> Inl e
      | Inr loss_usd \<Rightarrow>
          (case calculate_percentage_loss current_rate strike_price months_remaining of
             Inl e \<Rightarrow> Inl e
           | Inr percentage_loss \<Rightarrow> Inr (loss_usd, percentage_loss)))"

subsection \<open>Market scenarios\<close>

text \<open>\<^verbatim>\<open>months = list(range(1, 13))\<close>\<close>

definition months :: "int list" where
  "months = [1..12]"

text \<open>
  The radio button offers four scenario types; the month of the shock is read from a slider
  in the branch of the sudden shock only, so it is carried by that constructor.
  \<^verbatim>\<open>
  if scenario_type == "Gradual Change":
      exchange_rates = [initial_rate + (final_rate - initial_rate) * (i-1) / 11 for i in months]
  elif scenario_type == "Sudden Shock":
      shock_month = st.slider("Month of Shock", min_value=1, max_value=12, value=6)
      exchange_rates = [initial_rate if i < shock_month else final_rate for i in months]
  elif scenario_type == "Typical Pre-2008 Pattern":
      start_rate = 2.2
      end_rate = 1.6
      exchange_rates = [start_rate - (start_rate - end_rate) * (i-1) / 11 for i in months]
  elif scenario_type == "2008 Crisis Pattern":
      pre_crisis_months = 8
      pre_crisis_rates = [initial_rate - 0.02 * (i-1) for i in range(1, pre_crisis_months + 1)]
      crisis_rates = [initial_rate + (final_rate - initial_rate) * (i-pre_crisis_months) / (12-pre_crisis_months)
                      for i in range(pre_crisis_months + 1, 13)]
      exchange_rates = pre_crisis_rates + crisis_rates
  \<close>
  The divisors \<open>11\<close> and \<open>12 - 8\<close> are non-zero constants, so these divisions cannot raise.
\<close>

datatype scenario_type =
  Gradual_Change | Sudden_Shock int | Typical_Pre_2008_Pattern | Crisis_2008_Pattern

fun exchange_rates :: "scenario_type \<Rightarrow> real \<Rightarrow> real \<Rightarrow> real list" where
  "exchange_rates Gradual_Change initial_rate final_rate =
     map (\<lambda>i. initial_rate + (final_rate - initial_rate) * real_of_int (i - 1) / 11) months"
| "exchange_rates (Sudden_Shock shock_month) initial_rate final_rate =
     map (\<lambda>i. if i < shock_month then initial_rate else final_rate) months"
| "exchange_rates Typical_Pre_2008_Pattern initial_rate final_rate =
     (let start_rate = 2.2; end_rate = 1.6
      in map (\<lambda>i. start_rate - (start_rate - end_rate) * real_of_int (i - 1) / 11) months)"
| "exchange_rates Crisis_2008_Pattern initial_rate final_rate =
     (let pre_crisis_months = 8;
          pre_crisis_rates =
            map (\<lambda>i. initial_rate - 0.02 * real_of_int (i - 1)) [1..pre_crisis_months];
          crisis_rates =
            map (\<lambda>i. initial_rate + (final_rate - initial_rate)
                        * real_of_int (i - pre_crisis_months)
                        / real_of_int (12 - pre_crisis_months))
              [pre_crisis_months + 1..12]
      in pre_crisis_rates @ crisis_rates)"

text \<open>
  The crisis pattern as the specification words it, to be compared with the script's:
  months 1 to 8 drift down by 0.02 a month, and months 9 to 12 lie on the straight line from
  the value at month 8 to the end rate, which is reached at month 12.
\<close>

definition crisis_reversal_spec :: "real \<Rightarrow> real \<Rightarrow> int \<Rightarrow> real" where
  "crisis_reversal_spec start_rate end_rate i =
     (if i \<le> 8 then start_rate - 0.02 * real_of_int (i - 1)
      else (let month8 = start_rate - 0.02 * real_of_int (8 - 1)
            in month8 + (end_rate - month8) * real_of_int (i - 8) / real_of_int (12 - 8)))"

subsection \<open>Monthly losses along a scenario\<close>

text \<open>
  \<^verbatim>\<open>
  monthly_losses_usd = []
  cumulative_losses_usd = 0
  for i, rate in enumerate(exchange_rates):
      months_remaining = 12 - i
      monthly_loss = calculate_stf_losses(notional_value, initial_rate, rate, strike_price, 1)
      monthly_losses_usd.append(monthly_loss / 1_000_000)
      cumulative_losses_usd += monthly_loss
  \<close>
  The loop is a recursion over the rates that are left, with the index \<open>i\<close> of
  \<^verbatim>\<open>enumerate\<close> and the two accumulators as arguments. \<open>months_remaining\<close> is
  computed and never used, as in the script. An exception in a call ends the loop.
\<close>

fun monthly_loop ::
  "real \<Rightarrow> real \<Rightarrow> real \<Rightarrow> nat \<Rightarrow> real list \<Rightarrow> real list \<Rightarrow> real
     \<Rightarrow> py_error + (real list \<times> real)" where
  "monthly_loop notional_value initial_rate strike_price i [] monthly_losses_usd
       cumulative_losses_usd =
     Inr (monthly_losses_usd, cumulative_losses_usd)"
| "monthly_loop notional_value initial_rate strike_price i (rate # rest) monthly_losses_usd
       cumulative_losses_usd =
     (let months_remaining = 12 - int i
      in case calculate_stf_losses notional_value initial_rate rate strike_price 1 of
           Inl e \<Rightarrow> Inl e
         | Inr monthly_loss \<Rightarrow>
             monthly_loop notional_value initial_rate strike_price (Suc i) rest
               (monthly_losses_usd @ [monthly_loss / 1000000])
               (cumulative_losses_usd + monthly_loss))"

definition monthly_losses ::
  "real \<Rightarrow> real \<Rightarrow> real \<Rightarrow> real list \<Rightarrow> py_error + (real list \<times> real)" where
  "monthly_losses notional_value initial_rate strike_price rates =
     monthly_loop notional_value initial_rate strike_price 0 rates [] 0"

text \<open>
  The table's column of cumulative losses is \<^verbatim>\<open>np.cumsum(monthly_losses_usd)\<close>: NumPy's
  running sum, whose entry \<open>m\<close> is the sum accumulated from the left over entries
  \<open>0..m\<close>.
\<close>

fun cumsum_from :: "real \<Rightarrow> real list \<Rightarrow> real list" where
  "cumsum_from acc [] = []"
| "cumsum_from acc (x # xs) = (acc + x) # cumsum_from (acc + x) xs"

definition np_cumsum :: "real list \<Rightarrow> real list" where
  "np_cumsum xs = cumsum_from 0 xs"

subsection \<open>Optimal hedge ratio\<close>

text \<open>
  \<^verbatim>\<open>
  delta = h1 + (h1 - h2) * (1/r - 1)
  optimal_hedge = delta * ebit_value
  \<close>
  \<open>r\<close> is a slider's value divided by 100, a float between 0 and 0.5, both included.
\<close>

definition optimal_hedging_analysis ::
  "real \<Rightarrow> real \<Rightarrow> real \<Rightarrow> real \<Rightarrow> py_error + (real \<times> real)" where
  "optimal_hedging_analysis h1 h2 r ebit_value =
     (case py_truediv 1 r of
        Inl e \<Rightarrow> Inl e
      | Inr inv_r \<Rightarrow>
          (let delta = h1 + (h1 - h2) * (inv_r - 1);
               optimal_hedge = delta * ebit_value
           in Inr (delta, optimal_hedge)))"

section \<open>Helper facts\<close>

lemma months_list: "months = [1, 2, 3, 4, 5, 6, 7, 8, 9, 10, 11, 12]"
  unfolding months_def by (simp add: upto_rec1)

lemma upto_1_8: "[1..8] = [1, 2, 3, 4, 5, 6, 7, 8::int]"
  by (simp add: upto_rec1)

lemma upto_9_12: "[8 + 1..12] = [9, 10, 11, 12::int]"
  by simp

lemma length_cumsum_from: "length (cumsum_from acc xs) = length xs"
  by (induction xs arbitrary: acc) simp_all

lemma cumsum_from_nth:
  "m < length xs \<Longrightarrow> cumsum_from acc xs ! m = acc + sum_list (take (Suc m) xs)"
proof (induction xs arbitrary: acc m)
  case Nil
  then show ?case by simp
next
  case (Cons x xs)
  show ?case
  proof (cases m)
    case 0
    then show ?thesis by simp
  next
    case (Suc k)
    with Cons.prems have "k < length xs" by simp
    from Cons.IH [OF this, of "acc + x"] Suc show ?thesis by (simp add: add.assoc)
  qed
qed

text \<open>
  The value \<open>calculate_stf_losses\<close> returns whenever it returns: it raises only for a
  current rate of 0 above a negative strike.
\<close>

lemma stf_losses_value:
  assumes "0 \<le> strike_price \<or> rate \<noteq> 0"
  shows "calculate_stf_losses notional_value initial_rate rate strike_price t
           = Inr (if rate \<le> strike_price then 0
                  else notional_value * 2 * real_of_int t * (strike_price - rate) / rate)"
  using assms by (auto simp add: calculate_stf_losses_def py_truediv_def)

lemma monthly_loop_result:
  assumes "0 \<le> strike_price \<or> 0 \<notin> set rates"
  shows "monthly_loop notional_value initial_rate strike_price i rates ms c
           = Inr (ms @ map (\<lambda>rate. (if rate \<le> strike_price then 0
                                      else notional_value * 2 * real_of_int 1
                                             * (strike_price - rate) / rate) / 1000000) rates,
                  c + sum_list (map (\<lambda>rate. if rate \<le> strike_price then 0
                                      else notional_value * 2 * real_of_int 1
                                             * (strike_price - rate) / rate) rates))"
  using assms
proof (induction rates arbitrary: i ms c)
  case Nil
  then show ?case by simp
next
  case (Cons rate rest)
  from Cons.prems have ok: "0 \<le> strike_price \<or> rate \<noteq> 0"
    and rest: "0 \<le> strike_price \<or> 0 \<notin> set rest"
    by auto
  show ?case
    by (simp only: monthly_loop.simps Let_def stf_losses_value [OF ok] sum.case
        Cons.IH [OF rest]) (simp add: add.assoc)
qed

section \<open>Properties of the loss formulas\<close>

text \<open>
  C1, as stated, fails: at the specification's own example the script returns the signed
  loss of the formula \<open>l = n\<cdot>2t(X - S)\<close>, which is negative above the strike, and not its
  magnitude. (In exact arithmetic the two values are \<open>-31500000\<close> and \<open>-210\<close>.)
\<close>

theorem loss_sign_counterexample:
  "calculate_stf_losses 15000000 1.60 2.00 1.65 6 = Inr (- 31500000)
   \<and> calculate_stf_losses 15000000 1.60 2.00 1.65 6 \<noteq> Inr 31500000
   \<and> calculate_percentage_loss 2.00 1.65 6 = Inr (- 210)
   \<and> calculate_percentage_loss 2.00 1.65 6 \<noteq> Inr 210"
  by (simp add: calculate_stf_losses_def calculate_percentage_loss_def py_truediv_def)

text \<open>
  C1 (amended). In the loss regime (current rate above the strike), for a positive current
  rate, a non-negative notional and non-negative months remaining,
  \<open>calculate_stf_losses\<close> returns the signed loss: minus the non-negative magnitude
  \<open>notional * 2 * months * (current - strike) / current\<close>, hence a value \<open>\<le> 0\<close>; and
  \<open>calculate_percentage_loss\<close> returns minus the non-negative magnitude
  \<open>2 * months * (current - strike) * 100 / current\<close>. In particular
  \<open>calculate_stf_losses 15000000 1.60 2.00 1.65 6\<close> is \<open>-31500000\<close> and
  \<open>calculate_percentage_loss 2.00 1.65 6\<close> is \<open>-210\<close>.
\<close>

theorem loss_regime_signed:
  assumes "strike_price < current_rate" and "0 < current_rate"
    and "0 \<le> notional_value" and "0 \<le> months_remaining"
  shows "calculate_stf_losses notional_value initial_rate current_rate strike_price months_remaining
           = Inr (- (notional_value * 2 * real_of_int months_remaining
                      * (current_rate - strike_price) / current_rate))
       \<and> 0 \<le> notional_value * 2 * real_of_int months_remaining
                 * (current_rate - strike_price) / current_rate
       \<and> calculate_percentage_loss current_rate strike_price months_remaining
           = Inr (- (2 * real_of_int months_remaining * (current_rate - strike_price) * 100
                      / current_rate))
       \<and> 0 \<le> 2 * real_of_int months_remaining * (current_rate - strike_price) * 100
                 / current_rate
       \<and> calculate_stf_losses 15000000 1.60 2.00 1.65 6 = Inr (- 31500000)
       \<and> calculate_percentage_loss 2.00 1.65 6 = Inr (- 210)"
proof -
  have "calculate_stf_losses notional_value initial_rate current_rate strike_price
          months_remaining
        = Inr (notional_value * 2 * real_of_int months_remaining
                * (strike_price - current_rate) / current_rate)"
    using assms(1,2) by (simp add: calculate_stf_losses_def py_truediv_def)
  also have "notional_value * 2 * real_of_int months_remaining
                * (strike_price - current_rate) / current_rate
        = - (notional_value * 2 * real_of_int months_remaining
                * (current_rate - strike_price) / current_rate)"
    by (simp add: right_diff_distrib diff_divide_distrib)
  finally have a: "calculate_stf_losses notional_value initial_rate current_rate strike_price
          months_remaining
        = Inr (- (notional_value * 2 * real_of_int months_remaining
                * (current_rate - strike_price) / current_rate))" .
  have "calculate_percentage_loss current_rate strike_price months_remaining
        = Inr (2 * real_of_int months_remaining * (strike_price - current_rate) * 100
                / current_rate)"
    using assms(1,2) by (simp add: calculate_percentage_loss_def py_truediv_def)
  also have "2 * real_of_int months_remaining * (strike_price - current_rate) * 100
                / current_rate
        = - (2 * real_of_int months_remaining * (current_rate - strike_price) * 100
                / current_rate)"
    by (simp add: algebra_simps diff_divide_distrib)
  finally have b: "calculate_percentage_loss current_rate strike_price months_remaining
        = Inr (- (2 * real_of_int months_remaining * (current_rate - strike_price) * 100
                / current_rate))" .
  have c: "0 \<le> notional_value * 2 * real_of_int months_remaining
                 * (current_rate - strike_price) / current_rate"
    using assms by simp
  have d: "0 \<le> 2 * real_of_int months_remaining * (current_rate - strike_price) * 100
                 / current_rate"
    using assms by simp
  have e: "calculate_stf_losses 15000000 1.60 2.00 1.65 6 = Inr (- 31500000)"
    by (simp add: calculate_stf_losses_def py_truediv_def)
  have f: "calculate_percentage_loss 2.00 1.65 6 = Inr (- 210)"
    by (simp add: calculate_percentage_loss_def py_truediv_def)
  from a b c d e f show ?thesis by blast
qed

theorem loss_regime_signed_witness:
  "calculate_stf_losses 1000 1 4 2 3 = Inr (- 3000)
   \<and> calculate_percentage_loss 4 2 3 = Inr (- 300)"
  using loss_regime_signed [where strike_price = 2 and current_rate = 4
      and notional_value = 1000 and months_remaining = 3 and initial_rate = 1]
  by simp

text \<open>
  C2. Whenever the current rate is at most the strike, \<open>calculate_stf_losses\<close> returns
  exactly 0 and \<open>calculate_percentage_loss\<close> returns exactly 0, whatever the notional, the
  initial rate and the months remaining are.
\<close>

theorem no_loss_regime:
  assumes "current_rate \<le> strike_price"
  shows "calculate_stf_losses notional_value initial_rate current_rate strike_price months_remaining
           = Inr 0
       \<and> calculate_percentage_loss current_rate strike_price months_remaining = Inr 0"
  using assms by (simp add: calculate_stf_losses_def calculate_percentage_loss_def)

theorem no_loss_regime_witness:
  "(1.5::real) \<le> 1.65
   \<and> calculate_stf_losses 15000000 1.6 1.5 1.65 6 = Inr 0
   \<and> calculate_percentage_loss 1.5 1.65 6 = Inr 0"
  using no_loss_regime [of "1.5" "1.65" 15000000 "1.6" 6] by simp




text \<open>
  C7. For fixed notional, current rate, strike and months remaining, the initial rate never
  changes what \<open>calculate_stf_losses\<close> returns. \<open>calculate_percentage_loss\<close> takes neither the
  notional nor the initial rate as an argument; accordingly the percentage the simulator
  computes beside the loss is the same for every notional and every initial rate.
\<close>

theorem initial_rate_irrelevant:
  "calculate_stf_losses notional_value initial_rate current_rate strike_price months_remaining
     = calculate_stf_losses notional_value initial_rate' current_rate strike_price months_remaining
   \<and> simulator_results notional_value initial_rate current_rate strike_price months_remaining
     = simulator_results notional_value initial_rate' current_rate strike_price months_remaining
   \<and> map_sum id snd
       (simulator_results notional_value initial_rate current_rate strike_price months_remaining)
     = map_sum id snd
       (simulator_results notional_value' initial_rate' current_rate strike_price months_remaining)"
  by (simp add: calculate_stf_losses_def calculate_percentage_loss_def simulator_results_def
      py_truediv_def)

text \<open>
  C10. For every strike \<open>> 0\<close>: when the current rate is at most the strike, and so also when
  it is 0, \<open>calculate_stf_losses\<close> returns 0 from the first branch, before the division; the
  division is evaluated only when the current rate is above the strike, where the divisor is
  positive. Hence the function returns a value for every input and never raises
  \<open>ZeroDivisionError\<close>.
\<close>

theorem stf_losses_total:
  assumes "0 < strike_price"
  shows "(current_rate \<le> strike_price \<longrightarrow>
            calculate_stf_losses notional_value initial_rate current_rate strike_price
              months_remaining = Inr 0)
       \<and> calculate_stf_losses notional_value initial_rate 0 strike_price months_remaining = Inr 0
       \<and> (strike_price < current_rate \<longrightarrow>
            current_rate \<noteq> 0
            \<and> calculate_stf_losses notional_value initial_rate current_rate strike_price
                months_remaining
              = Inr (notional_value * 2 * real_of_int months_remaining
                      * (strike_price - current_rate) / current_rate))
       \<and> (\<exists>v. calculate_stf_losses notional_value initial_rate current_rate strike_price
                months_remaining = Inr v)"
  using assms by (auto simp add: calculate_stf_losses_def py_truediv_def)

theorem stf_losses_total_witness:
  "calculate_stf_losses 15000000 1.6 0 1.65 6 = Inr 0
   \<and> calculate_stf_losses 15000000 1.6 1.65 1.65 6 = Inr 0
   \<and> calculate_stf_losses 1000 1 4 2 3 = Inr (- 3000)"
  using stf_losses_total [where strike_price = "1.65" and current_rate = "1.65"
      and notional_value = 15000000 and initial_rate = "1.6" and months_remaining = 6]
    stf_losses_total [where strike_price = 2 and current_rate = 4
      and notional_value = 1000 and initial_rate = 1 and months_remaining = 3]
  by simp

section \<open>Properties of the scenarios\<close>

text \<open>
  C4. Each of the four scenario types produces exactly 12 rates, one for each entry of
  \<open>months\<close>, and \<open>months\<close> is the list of the indices 1 to 12 in increasing order.
\<close>

theorem scenario_length:
  "months = [1, 2, 3, 4, 5, 6, 7, 8, 9, 10, 11, 12]
   \<and> length (exchange_rates scenario initial_rate final_rate) = 12
   \<and> length (exchange_rates scenario initial_rate final_rate) = length months"
proof -
  have "length (exchange_rates scenario initial_rate final_rate) = 12"
  proof (cases scenario)
    case Crisis_2008_Pattern
    then show ?thesis by (simp add: upto_1_8 upto_9_12)
  qed (simp_all add: months_list)
  then show ?thesis by (simp add: months_list)
qed

text \<open>
  C5, as stated, fails in its second half: from start rate 1 to end rate 2 the script's
  rate at month 9 (index 8 of the list) is \<open>5/4\<close>, on the line from the start rate at month 8
  to the end rate at month 12, while the line from the value at month 8, \<open>0.86\<close>, to the end
  rate gives \<open>229/200\<close> there.
\<close>

theorem crisis_interpolation_counterexample:
  "exchange_rates Crisis_2008_Pattern 1 2 ! 8 = 5 / 4
   \<and> crisis_reversal_spec 1 2 9 = 229 / 200"
  by (simp add: upto_1_8 upto_9_12 crisis_reversal_spec_def)

text \<open>
  C5 (amended). The crisis pattern produces, for the first 8 months, the rates
  \<open>initial_rate - 0.02 * (i - 1)\<close>, and for months 9 to 12 the rates
  \<open>initial_rate + (final_rate - initial_rate) * (i - 8) / 4\<close>: these interpolate linearly
  up to the final rate from the initial rate, not from the value at month 8.
\<close>

theorem crisis_rates_shape:
  "exchange_rates Crisis_2008_Pattern initial_rate final_rate =
     map (\<lambda>i. if i \<le> 8 then initial_rate - 0.02 * real_of_int (i - 1)
               else initial_rate + (final_rate - initial_rate) * real_of_int (i - 8) / 4)
       months"
  by (simp add: upto_1_8 upto_9_12 months_list)

text \<open>
  C8. For every month of the shock (in particular for each one from 1 to 12), the sudden
  shock produces the initial rate for every month \<open>i < shock_month\<close> and the final rate for
  every month \<open>i \<ge> shock_month\<close>, for \<open>i\<close> from 1 to 12; with initial rate 1.60, final rate
  2.00 and shock month 6, months 1 to 5 get 1.60 and months 6 to 12 get 2.00.
\<close>

theorem sudden_shock_step:
  "(\<forall>i \<in> {1..12}. exchange_rates (Sudden_Shock shock_month) initial_rate final_rate ! nat (i - 1)
        = (if i < shock_month then initial_rate else final_rate))
   \<and> exchange_rates (Sudden_Shock 6) 1.60 2.00
       = [1.60, 1.60, 1.60, 1.60, 1.60, 2.00, 2.00, 2.00, 2.00, 2.00, 2.00, 2.00]"
proof -
  have "exchange_rates (Sudden_Shock shock_month) initial_rate final_rate ! nat (i - 1)
        = (if i < shock_month then initial_rate else final_rate)" if "i \<in> {1..12}" for i
  proof -
    from that have "i \<in> set months" by (simp add: months_def)
    then have "i = 1 \<or> i = 2 \<or> i = 3 \<or> i = 4 \<or> i = 5 \<or> i = 6 \<or> i = 7 \<or> i = 8 \<or> i = 9
        \<or> i = 10 \<or> i = 11 \<or> i = 12"
      by (simp add: months_list)
    then show ?thesis by (elim disjE) (simp_all add: months_list)
  qed
  moreover have "exchange_rates (Sudden_Shock 6) 1.60 2.00
       = [1.60, 1.60, 1.60, 1.60, 1.60, 2.00, 2.00, 2.00, 2.00, 2.00, 2.00, 2.00]"
    by (simp add: months_list)
  ultimately show ?thesis by blast
qed

theorem sudden_shock_step_witness:
  "exchange_rates (Sudden_Shock 3) 1.60 2.00 ! nat (2 - 1) = 1.60
   \<and> exchange_rates (Sudden_Shock 3) 1.60 2.00 ! nat (3 - 1) = 2.00
   \<and> exchange_rates (Sudden_Shock 6) 1.60 2.00
       = [1.60, 1.60, 1.60, 1.60, 1.60, 2.00, 2.00, 2.00, 2.00, 2.00, 2.00, 2.00]"
proof -
  note step = sudden_shock_step [of 3 "1.60" "2.00"]
  have m2: "(2::int) \<in> {1..12}" and m3: "(3::int) \<in> {1..12}" by simp_all
  from step [THEN conjunct1, THEN bspec, OF m2] step [THEN conjunct1, THEN bspec, OF m3]
    step [THEN conjunct2]
  show ?thesis by simp
qed

section \<open>Properties of the monthly simulation\<close>

text \<open>
  C3. For every list of rates on which the loss formula does not raise (a strike \<open>\<ge> 0\<close>, or
  no rate equal to 0), the loop returns; the loss of each month is what
  \<open>calculate_stf_losses\<close> returns for that month's rate with months remaining 1, whatever the
  position of the month, converted to millions; the cumulative loss at each month is the sum
  of the monthly losses up to and including that month; and the running total of the loop is
  the sum of all of them.
\<close>

theorem monthly_simulation:
  assumes "0 \<le> strike_price \<or> 0 \<notin> set rates"
  shows "\<exists>ms total.
           monthly_losses notional_value initial_rate strike_price rates = Inr (ms, total)
         \<and> length ms = length rates
         \<and> length (np_cumsum ms) = length rates
         \<and> (\<forall>m < length rates.
               (\<exists>monthly_loss.
                  calculate_stf_losses notional_value initial_rate (rates ! m) strike_price 1
                    = Inr monthly_loss
                \<and> ms ! m = monthly_loss / 1000000)
             \<and> np_cumsum ms ! m = sum_list (take (Suc m) ms))
         \<and> total / 1000000 = sum_list ms"
proof -
  define v where "v = (\<lambda>rate. if rate \<le> strike_price then 0
                        else notional_value * 2 * real_of_int 1 * (strike_price - rate) / rate)"
  define ms where "ms = map (\<lambda>rate. v rate / 1000000) rates"
  define total where "total = sum_list (map v rates)"
  have loop: "monthly_losses notional_value initial_rate strike_price rates = Inr (ms, total)"
    using monthly_loop_result [OF assms, of notional_value initial_rate 0 "[]" 0]
    by (simp add: monthly_losses_def ms_def total_def v_def)
  have len: "length ms = length rates"
    by (simp add: ms_def)
  have clen: "length (np_cumsum ms) = length rates"
    by (simp add: ms_def np_cumsum_def length_cumsum_from)
  have month: "(\<exists>monthly_loss.
                  calculate_stf_losses notional_value initial_rate (rates ! m) strike_price 1
                    = Inr monthly_loss
                \<and> ms ! m = monthly_loss / 1000000)
             \<and> np_cumsum ms ! m = sum_list (take (Suc m) ms)"
    if m: "m < length rates" for m
  proof -
    from m have "rates ! m \<in> set rates" by simp
    with assms have ok: "0 \<le> strike_price \<or> rates ! m \<noteq> 0" by auto
    have "calculate_stf_losses notional_value initial_rate (rates ! m) strike_price 1
            = Inr (v (rates ! m))"
      unfolding v_def by (rule stf_losses_value [OF ok])
    moreover have "ms ! m = v (rates ! m) / 1000000"
      using m by (simp add: ms_def)
    moreover have "np_cumsum ms ! m = sum_list (take (Suc m) ms)"
      using m len cumsum_from_nth [of m ms 0] by (simp add: np_cumsum_def)
    ultimately show ?thesis by blast
  qed
  have tot: "total / 1000000 = sum_list ms"
  proof -
    have "sum_list (map (\<lambda>rate. v rate / 1000000) xs) = sum_list (map v xs) / 1000000" for xs
      by (induction xs) (simp_all add: add_divide_distrib)
    then show ?thesis by (simp add: ms_def total_def)
  qed
  from loop len clen month tot show ?thesis by blast
qed

theorem monthly_simulation_witness:
  "\<exists>ms total.
     monthly_losses 15000000 1.6 1.65 [1.6, 2, 2] = Inr (ms, total)
   \<and> length ms = length [1.6, 2, 2 :: real]
   \<and> length (np_cumsum ms) = length [1.6, 2, 2 :: real]
   \<and> (\<forall>m < length [1.6, 2, 2 :: real].
         (\<exists>monthly_loss.
            calculate_stf_losses 15000000 1.6 ([1.6, 2, 2] ! m) 1.65 1 = Inr monthly_loss
          \<and> ms ! m = monthly_loss / 1000000)
       \<and> np_cumsum ms ! m = sum_list (take (Suc m) ms))
   \<and> total / 1000000 = sum_list ms"
  by (rule monthly_simulation [of "1.65" "[1.6, 2, 2]" 15000000 "1.6"]) simp

text \<open>
  A run of the loop: one month at the initial rate and two months at rate 2, for a notional
  of 15 million and strike 1.65. Each month above the strike loses 5.25 million.
\<close>

lemma monthly_losses_example:
  "monthly_losses 15000000 1.6 1.65 [1.6, 2, 2] = Inr ([0, - 5.25, - 5.25], - 10500000)
   \<and> np_cumsum [0, - 5.25, - 5.25] = [0, - 5.25, - 10.5]"
  by (simp add: monthly_losses_def calculate_stf_losses_def py_truediv_def np_cumsum_def)

section \<open>Properties of the optimal hedge ratio\<close>

text \<open>
  C9, as stated, fails: for a profit margin of 0 the script raises Python's
  \<open>ZeroDivisionError\<close> at \<open>1/r\<close>, not an \<open>InvalidInput\<close> error.
\<close>

theorem hedge_invalid_input_counterexample:
  "optimal_hedging_analysis 0.95 0.25 0 500000000 = Inl ZeroDivisionError
   \<and> optimal_hedging_analysis 0.95 0.25 0 500000000 \<noteq> Inl InvalidInput"
  by (simp add: optimal_hedging_analysis_def py_truediv_def)

text \<open>
  C9 (amended). The optimal hedge computation checks none of its inputs. When the profit
  margin \<open>r\<close> equals 0, the division \<open>1/r\<close> raises \<open>ZeroDivisionError\<close>, which reaches the caller
  as it is; for every other \<open>r\<close> the computation returns
  \<open>delta = h1 + (h1 - h2) * (1/r - 1)\<close> and \<open>delta * ebit_value\<close>.
\<close>

theorem hedge_zero_margin:
  "(r = 0 \<longrightarrow> optimal_hedging_analysis h1 h2 r ebit_value = Inl ZeroDivisionError)
   \<and> (r \<noteq> 0 \<longrightarrow> optimal_hedging_analysis h1 h2 r ebit_value
         = Inr (h1 + (h1 - h2) * (1 / r - 1), (h1 + (h1 - h2) * (1 / r - 1)) * ebit_value))"
  by (simp add: optimal_hedging_analysis_def py_truediv_def Let_def)

theorem hedge_zero_margin_witness:
  "optimal_hedging_analysis 0.95 0.25 0 500000000 = Inl ZeroDivisionError
   \<and> optimal_hedging_analysis 0.95 0.25 0.25 500000000 = Inr (3.05, 1525000000)"
  using hedge_zero_margin [of 0 "0.95" "0.25" 500000000]
    hedge_zero_margin [of "0.25" "0.95" "0.25" 500000000]
  by simp

end
